theory Spec2Isabelle
  imports Main
begin

section \<open>Values, exceptions and replies\<close>

text \<open>
  Modelled from the spec: the local access and refresh tokens, whose service
  (\<^verbatim>\<open>app.dependencies\<close>) is not among the sources. The spec calls them
  "signed tokens (not persisted) encoding {subject=email, expiry}".
\<close>

record token =
  subject :: string
  expiry :: nat
  signature :: string

text \<open>
  Python values: what a JSON body decodes to, what \<^verbatim>\<open>ast.literal_eval\<close> returns
  (strings, bytes, numbers, tuples, lists, dicts, sets, booleans, \<^verbatim>\<open>None\<close> and
  \<^verbatim>\<open>Ellipsis\<close>), the \<^verbatim>\<open>detail\<close> of an \<^verbatim>\<open>HTTPException\<close>. The routes do no arithmetic:
  a float and a complex number are kept by their \<^verbatim>\<open>repr\<close>. A string is held in
  UTF-8. A local token is a Python \<^verbatim>\<open>str\<close>; it is kept here in its decoded form.
\<close>

datatype pyval =
    PNone
  | PEllipsis
  | PBool bool
  | PInt int
  | PFloat string
  | PComplex string
  | PStr string
  | PBytes string
  | PToken token
  | PList "pyval list"
  | PTuple "pyval list"
  | PSet "pyval list"
  | PDict "(pyval \<times> pyval) list"

text \<open>
  Exceptions. A \<^verbatim>\<open>KeyError\<close> carries its key and \<open>LiteralEvalError\<close>, the error that
  \<^verbatim>\<open>ast.literal_eval\<close> raises, the text it was given; the other exceptions that are
  no \<^verbatim>\<open>HTTPException\<close> carry their \<^verbatim>\<open>str\<close> form.
\<close>

datatype exc =
    HTTPException nat pyval
  | ConnectionError string
  | WalletException string
  | KeyError string
  | TypeError string
  | ValueError string
  | LiteralEvalError string
  | OtherException string

record account =
  address :: string

datatype reply =
    JSONResponse pyval nat
  | Response string nat
  | Returned pyval
  | ReturnedAccount account

section \<open>What the framework does with a value\<close>

definition digit :: "nat \<Rightarrow> char" where
  "digit d = char_of (48 + d)"

fun dec :: "nat \<Rightarrow> string" where
  "dec n = (if n < 10 then [digit n] else dec (n div 10) @ [digit (n mod 10)])"

declare dec.simps [simp del]

text \<open>
  \<^verbatim>\<open>JSONResponse\<close> renders its content when it is built, with
  \<^verbatim>\<open>json.dumps(content, allow_nan=False, ...)\<close>. That raises \<^verbatim>\<open>TypeError\<close> at a set,
  bytes, a complex number, \<^verbatim>\<open>Ellipsis\<close> and at a dictionary key that is no string,
  number, boolean or \<^verbatim>\<open>None\<close>, and \<^verbatim>\<open>ValueError\<close> at a float that is not finite; a
  tuple is rendered as a list. \<open>dumps_error\<close> is the first error in the order of
  the encoder, in the wording of CPython 3.11.
\<close>

fun type_name :: "pyval \<Rightarrow> string" where
  "type_name PNone = ''NoneType''"
| "type_name PEllipsis = ''ellipsis''"
| "type_name (PBool b) = ''bool''"
| "type_name (PInt i) = ''int''"
| "type_name (PFloat r) = ''float''"
| "type_name (PComplex r) = ''complex''"
| "type_name (PStr s) = ''str''"
| "type_name (PBytes b) = ''bytes''"
| "type_name (PToken t) = ''str''"
| "type_name (PList xs) = ''list''"
| "type_name (PTuple xs) = ''tuple''"
| "type_name (PSet xs) = ''set''"
| "type_name (PDict kvs) = ''dict''"

definition float_error :: "string \<Rightarrow> exc option" where
  "float_error r =
     (if r = ''nan'' \<or> r = ''inf'' \<or> r = ''-inf''
      then Some (ValueError ''Out of range float values are not JSON compliant'')
      else None)"

fun key_error :: "pyval \<Rightarrow> exc option" where
  "key_error PNone = None"
| "key_error (PBool b) = None"
| "key_error (PInt i) = None"
| "key_error (PStr s) = None"
| "key_error (PToken t) = None"
| "key_error (PFloat r) = float_error r"
| "key_error k =
     Some (TypeError (''keys must be str, int, float, bool or None, not '' @ type_name k))"

fun first_error :: "exc option list \<Rightarrow> exc option" where
  "first_error [] = None"
| "first_error (Some e # es) = Some e"
| "first_error (None # es) = first_error es"

definition not_serializable :: "pyval \<Rightarrow> exc" where
  "not_serializable v =
     TypeError (''Object of type '' @ type_name v @ '' is not JSON serializable'')"

fun dumps_error :: "pyval \<Rightarrow> exc option" where
  "dumps_error PNone = None"
| "dumps_error (PBool b) = None"
| "dumps_error (PInt i) = None"
| "dumps_error (PStr s) = None"
| "dumps_error (PToken t) = None"
| "dumps_error (PFloat r) = float_error r"
| "dumps_error PEllipsis = Some (not_serializable PEllipsis)"
| "dumps_error (PComplex r) = Some (not_serializable (PComplex r))"
| "dumps_error (PBytes b) = Some (not_serializable (PBytes b))"
| "dumps_error (PSet xs) = Some (not_serializable (PSet xs))"
| "dumps_error (PList xs) = first_error (map dumps_error xs)"
| "dumps_error (PTuple xs) = first_error (map dumps_error xs)"
| "dumps_error (PDict kvs) =
     first_error
       (map (\<lambda>kv. case key_error (fst kv) of
                     Some e \<Rightarrow> Some e
                   | None \<Rightarrow> dumps_error (snd kv)) kvs)"

definition json_response :: "pyval \<Rightarrow> nat \<Rightarrow> exc + reply" where
  "json_response content st =
     (case dumps_error content of
        None \<Rightarrow> Inr (JSONResponse content st)
      | Some e \<Rightarrow> Inl e)"

text \<open>
  \<^verbatim>\<open>HTTPException(status_code, detail)\<close>: Starlette puts the phrase of the status
  in the place of a detail that is \<^verbatim>\<open>None\<close>, with \<^verbatim>\<open>http.HTTPStatus(status_code).phrase\<close>,
  which raises \<^verbatim>\<open>ValueError\<close> at a number that is no status (the table is that of
  Python 3.11).
\<close>

definition http_phrase :: "nat \<Rightarrow> string option" where
  "http_phrase =
     map_of
     [(100, ''Continue''),
      (101, ''Switching Protocols''),
      (102, ''Processing''),
      (103, ''Early Hints''),
      (200, ''OK''),
      (201, ''Created''),
      (202, ''Accepted''),
      (203, ''Non-Authoritative Information''),
      (204, ''No Content''),
      (205, ''Reset Content''),
      (206, ''Partial Content''),
      (207, ''Multi-Status''),
      (208, ''Already Reported''),
      (226, ''IM Used''),
      (300, ''Multiple Choices''),
      (301, ''Moved Permanently''),
      (302, ''Found''),
      (303, ''See Other''),
      (304, ''Not Modified''),
      (305, ''Use Proxy''),
      (307, ''Temporary Redirect''),
      (308, ''Permanent Redirect''),
      (400, ''Bad Request''),
      (401, ''Unauthorized''),
      (402, ''Payment Required''),
      (403, ''Forbidden''),
      (404, ''Not Found''),
      (405, ''Method Not Allowed''),
      (406, ''Not Acceptable''),
      (407, ''Proxy Authentication Required''),
      (408, ''Request Timeout''),
      (409, ''Conflict''),
      (410, ''Gone''),
      (411, ''Length Required''),
      (412, ''Precondition Failed''),
      (413, ''Request Entity Too Large''),
      (414, ''Request-URI Too Long''),
      (415, ''Unsupported Media Type''),
      (416, ''Requested Range Not Satisfiable''),
      (417, ''Expectation Failed''),
      (418, ''I'' @ [CHR 0x27] @ ''m a Teapot''),
      (421, ''Misdirected Request''),
      (422, ''Unprocessable Entity''),
      (423, ''Locked''),
      (424, ''Failed Dependency''),
      (425, ''Too Early''),
      (426, ''Upgrade Required''),
      (428, ''Precondition Required''),
      (429, ''Too Many Requests''),
      (431, ''Request Header Fields Too Large''),
      (451, ''Unavailable For Legal Reasons''),
      (500, ''Internal Server Error''),
      (501, ''Not Implemented''),
      (502, ''Bad Gateway''),
      (503, ''Service Unavailable''),
      (504, ''Gateway Timeout''),
      (505, ''HTTP Version Not Supported''),
      (506, ''Variant Also Negotiates''),
      (507, ''Insufficient Storage''),
      (508, ''Loop Detected''),
      (510, ''Not Extended''),
      (511, ''Network Authentication Required'')]"

definition http_exception :: "nat \<Rightarrow> pyval \<Rightarrow> exc" where
  "http_exception st detail =
     (if detail = PNone then
        (case http_phrase st of
           Some phrase \<Rightarrow> HTTPException st (PStr phrase)
         | None \<Rightarrow> ValueError (dec st @ '' is not a valid HTTPStatus''))
      else HTTPException st detail)"

text \<open>
  What the framework sends for the outcome of a route: the status of a response
  object and 200 for a returned value. For an \<^verbatim>\<open>HTTPException\<close> FastAPI's handler
  builds \<^verbatim>\<open>JSONResponse({"detail": exc.detail}, status_code=exc.status_code)\<close>, or a
  response without a body where the status allows none; a detail that cannot
  be rendered, like any other exception that leaves the route, ends in 500
  (\<^verbatim>\<open>main.py\<close> installs a handler for request validation errors only).
\<close>

definition body_allowed :: "nat \<Rightarrow> bool" where
  "body_allowed st = (200 \<le> st \<and> st \<noteq> 204 \<and> st \<noteq> 205 \<and> st \<noteq> 304)"

fun http_status :: "exc + reply \<Rightarrow> nat" where
  "http_status (Inr (JSONResponse content st)) = st"
| "http_status (Inr (Response content st)) = st"
| "http_status (Inr (Returned v)) = 200"
| "http_status (Inr (ReturnedAccount a)) = 200"
| "http_status (Inl (HTTPException st detail)) =
     (if body_allowed st \<and> dumps_error detail \<noteq> None then 500 else st)"
| "http_status (Inl e) = 500"

section \<open>The environment of a request\<close>

datatype backend = EthereumSmartContract | IOTAPaymentController | OtherProcessor

record request =
  endpoint :: string
  http_method :: string
  data :: pyval

record response =
  status_code :: nat
  json :: "exc + pyval"

text \<open>
  The collaborators of the routes, none of them under the sources: the selected
  payment processor (its class and the results of its methods), the upstream
  request client, the password context, the signing of local tokens with the
  clock and the lifetimes, the text of a local token, and of Python
  \<^verbatim>\<open>ast.literal_eval\<close> (\<open>None\<close> where it raises), the message of the error it raises,
  and \<^verbatim>\<open>repr\<close>.
\<close>

record env =
  payment_processor :: backend
  pp_create_account :: "string \<Rightarrow> exc + unit"
  pp_get_account_data :: "string \<Rightarrow> exc + account"
  pp_get_balance :: "string \<Rightarrow> exc + pyval"
  pp_request_funds :: "string \<Rightarrow> exc + string"
  make_request :: "request \<Rightarrow> exc + response"
  pwd_hash :: "string \<Rightarrow> string"
  pwd_verify :: "string \<Rightarrow> string \<Rightarrow> bool"
  sign :: "string \<Rightarrow> nat \<Rightarrow> string"
  now :: nat
  access_ttl :: nat
  refresh_ttl :: nat
  token_text :: "token \<Rightarrow> string"
  literal_eval :: "string \<Rightarrow> pyval option"
  literal_eval_message :: "string \<Rightarrow> string"
  py_repr :: "pyval \<Rightarrow> string"

section \<open>The state: database, payment calls, background tasks\<close>

text \<open>
  The rows of the two tables hold the columns that the routes write or read:
  \<^verbatim>\<open>created_at\<close> of a user and \<^verbatim>\<open>issued_at\<close> and \<^verbatim>\<open>expiry\<close> of a cached token are set
  below the routes. The calls to the payment processor are recorded in their
  order.
\<close>

record credentials =
  email :: string
  password :: string

record user =
  email :: string
  password_hash :: string

record cached_token =
  user_email :: string
  cached :: pyval

datatype sdk_call =
    CreateAccount string
  | GetAccountData string
  | GetBalance string
  | RequestFunds string

datatype task = CleanupExpiredTokens string

record app_state =
  users :: "user list"
  tokens :: "cached_token list"
  sdk_calls :: "sdk_call list"
  background_tasks :: "task list"

definition called :: "sdk_call \<Rightarrow> app_state \<Rightarrow> app_state" where
  "called c s = s\<lparr>sdk_calls := sdk_calls s @ [c]\<rparr>"

text \<open>
  A call of a method of \<^verbatim>\<open>payment_processor\<close>: the call is recorded with its
  identifier, and its result is what the processor answers for that identifier.
\<close>

definition processor_create_account ::
  "env \<Rightarrow> string \<Rightarrow> app_state \<Rightarrow> (exc + unit) \<times> app_state" where
  "processor_create_account E identifier s =
     (pp_create_account E identifier, called (CreateAccount identifier) s)"

definition processor_get_account_data ::
  "env \<Rightarrow> string \<Rightarrow> app_state \<Rightarrow> (exc + account) \<times> app_state" where
  "processor_get_account_data E identifier s =
     (pp_get_account_data E identifier, called (GetAccountData identifier) s)"

definition processor_get_balance ::
  "env \<Rightarrow> string \<Rightarrow> app_state \<Rightarrow> (exc + pyval) \<times> app_state" where
  "processor_get_balance E identifier s =
     (pp_get_balance E identifier, called (GetBalance identifier) s)"

definition processor_request_funds ::
  "env \<Rightarrow> string \<Rightarrow> app_state \<Rightarrow> (exc + string) \<times> app_state" where
  "processor_request_funds E identifier s =
     (pp_request_funds E identifier, called (RequestFunds identifier) s)"

section \<open>The string form of an exception\<close>

text \<open>
  \<^verbatim>\<open>str(e)\<close>. Starlette prints an \<^verbatim>\<open>HTTPException\<close> as
  \<^verbatim>\<open>f"{self.status_code}: {self.detail}"\<close>, where a string is printed as it is and
  every other value by its \<^verbatim>\<open>repr\<close>; a \<^verbatim>\<open>KeyError\<close> prints the \<^verbatim>\<open>repr\<close> of its key.
\<close>

fun py_str :: "env \<Rightarrow> pyval \<Rightarrow> string" where
  "py_str E (PStr s) = s"
| "py_str E (PToken t) = token_text E t"
| "py_str E v = py_repr E v"

fun str_exc :: "env \<Rightarrow> exc \<Rightarrow> string" where
  "str_exc E (HTTPException st detail) = dec st @ '': '' @ py_str E detail"
| "str_exc E (ConnectionError m) = m"
| "str_exc E (WalletException m) = m"
| "str_exc E (KeyError k) = py_repr E (PStr k)"
| "str_exc E (TypeError m) = m"
| "str_exc E (ValueError m) = m"
| "str_exc E (LiteralEvalError text) = literal_eval_message E text"
| "str_exc E (OtherException m) = m"

section \<open>wallet.py\<close>

text \<open>
  The handler that \<^verbatim>\<open>get_wallet_address\<close>, \<^verbatim>\<open>get_balance\<close> and \<^verbatim>\<open>get_request_funds\<close>
  each write out:
  \<^verbatim>\<open>error_dict = ast.literal_eval(str(e)); raise HTTPException(status_code=400, detail=error_dict)\<close>.
\<close>

definition reraise_literal :: "env \<Rightarrow> exc \<Rightarrow> exc + reply" where
  "reraise_literal E e =
     (case literal_eval E (str_exc E e) of
        None \<Rightarrow> Inl (LiteralEvalError (str_exc E e))
      | Some error_dict \<Rightarrow> Inl (http_exception 400 error_dict))"

text \<open>
  Each route is a \<^verbatim>\<open>try\<close> body, whose exceptions are values, followed by its
  \<^verbatim>\<open>except\<close> clauses.
\<close>

definition get_wallet_address :: "env \<Rightarrow> user \<Rightarrow> app_state \<Rightarrow> (exc + reply) \<times> app_state" where
  "get_wallet_address E usr s =
     (case processor_get_account_data E (email usr) s of
        (Inr acc, s1) \<Rightarrow> (Inr (ReturnedAccount acc), s1)
      | (Inl e, s1) \<Rightarrow> (reraise_literal E e, s1))"

definition get_balance_try :: "env \<Rightarrow> user \<Rightarrow> app_state \<Rightarrow> (exc + pyval) \<times> app_state" where
  "get_balance_try E current_user s =
     (if payment_processor E = IOTAPaymentController then
        processor_get_balance E (email current_user) s
      else
        (case processor_get_account_data E (email current_user) s of
           (Inl e, s1) \<Rightarrow> (Inl e, s1)
         | (Inr acc, s1) \<Rightarrow> processor_get_balance E (address acc) s1))"

text \<open>
  The value of the \<^verbatim>\<open>try\<close> body is returned. \<^verbatim>\<open>except WalletException\<close> comes first
  and answers with the string form; every other exception goes through
  \<^verbatim>\<open>ast.literal_eval\<close>.
\<close>

definition get_balance_except :: "env \<Rightarrow> exc + pyval \<Rightarrow> exc + reply" where
  "get_balance_except E r =
     (case r of
        Inr b \<Rightarrow> Inr (Returned b)
      | Inl (WalletException m) \<Rightarrow>
          Inl (http_exception 400 (PStr (str_exc E (WalletException m))))
      | Inl e \<Rightarrow> reraise_literal E e)"

definition get_balance :: "env \<Rightarrow> user \<Rightarrow> app_state \<Rightarrow> (exc + reply) \<times> app_state" where
  "get_balance E current_user s =
     (case get_balance_try E current_user s of
        (r, s') \<Rightarrow> (get_balance_except E r, s'))"

definition get_request_funds_try :: "env \<Rightarrow> user \<Rightarrow> app_state \<Rightarrow> (exc + string) \<times> app_state" where
  "get_request_funds_try E usr s =
     (if payment_processor E = EthereumSmartContract then
        (Inl (http_exception 400 (PStr ''Faucet not available for Ethereum'')), s)
      else
        (case processor_get_account_data E (email usr) s of
           (Inl e, s1) \<Rightarrow> (Inl e, s1)
         | (Inr acc, s1) \<Rightarrow> processor_request_funds E (address acc) s1))"

definition get_request_funds :: "env \<Rightarrow> user \<Rightarrow> app_state \<Rightarrow> (exc + reply) \<times> app_state" where
  "get_request_funds E usr s =
     (case get_request_funds_try E usr s of
        (Inl e, s') \<Rightarrow> (reraise_literal E e, s')
      | (Inr r, s') \<Rightarrow> (Inr (Response r 200), s'))"

section \<open>The helpers of user.py that are not among the sources\<close>

text \<open>
  Modelled from the spec: \<^verbatim>\<open>create_access_token\<close> and \<^verbatim>\<open>create_refresh_token\<close> of
  \<^verbatim>\<open>app.dependencies\<close>, which is missing. The spec: "stateless signing with an
  expiry; no side effects beyond signing".
\<close>

definition create_access_token :: "env \<Rightarrow> string \<Rightarrow> token" where
  "create_access_token E sub =
     \<lparr>subject = sub, expiry = now E + access_ttl E,
      signature = sign E sub (now E + access_ttl E)\<rparr>"

definition create_refresh_token :: "env \<Rightarrow> string \<Rightarrow> token" where
  "create_refresh_token E sub =
     \<lparr>subject = sub, expiry = now E + refresh_ttl E,
      signature = sign E sub (now E + refresh_ttl E)\<rparr>"

text \<open>
  Modelled from the spec: \<^verbatim>\<open>get_payload_from_refresh_token\<close> of \<^verbatim>\<open>app.dependencies\<close>,
  which is missing. The spec: "\<^verbatim>\<open>resolve_subject(refresh_token) -> subject\<close>: fails
  with \<^verbatim>\<open>InvalidToken\<close> if signature or expiry check fails", and "invalid/expired
  local token \<rightarrow> 401". A string that is no token at all decodes to no \<open>PToken\<close>.
\<close>

definition get_payload_from_refresh_token :: "env \<Rightarrow> pyval \<Rightarrow> exc + string" where
  "get_payload_from_refresh_token E refresh_token =
     (case refresh_token of
        PToken t \<Rightarrow>
          (if signature t = sign E (subject t) (expiry t) \<and> now E < expiry t
           then Inr (subject t)
           else Inl (HTTPException 401 (PStr ''InvalidToken'')))
      | _ \<Rightarrow> Inl (HTTPException 401 (PStr ''InvalidToken'')))"

text \<open>\<^verbatim>\<open>db.query(User).filter(User.email == e).first()\<close>\<close>

definition first_user :: "string \<Rightarrow> app_state \<Rightarrow> user option" where
  "first_user e s = find (\<lambda>u. email u = e) (users s)"

text \<open>
  Modelled from the spec: \<^verbatim>\<open>authenticate_user\<close> of \<^verbatim>\<open>app.dependencies\<close>, which is
  missing. The spec: "locally authenticate (local password check against local
  hash)".
\<close>

definition authenticate_user :: "env \<Rightarrow> string \<Rightarrow> string \<Rightarrow> app_state \<Rightarrow> user option" where
  "authenticate_user E e pw s =
     (case first_user e s of
        None \<Rightarrow> None
      | Some u \<Rightarrow> (if pwd_verify E pw (password_hash u) then Some u else None))"

text \<open>
  Modelled from the spec: \<^verbatim>\<open>add_token\<close> of \<^verbatim>\<open>app.crud\<close>, which is missing. The spec:
  "\<^verbatim>\<open>cache_upstream_token(user_email, token)\<close>: inserts a row keyed by user and
  token".
\<close>

definition add_token :: "string \<Rightarrow> pyval \<Rightarrow> app_state \<Rightarrow> app_state" where
  "add_token e t s = s\<lparr>tokens := tokens s @ [\<lparr>user_email = e, cached = t\<rparr>]\<rparr>"

text \<open>\<^verbatim>\<open>background_tasks.add_task\<close>: the task is queued, and runs after the response.\<close>

definition add_task :: "task \<Rightarrow> app_state \<Rightarrow> app_state" where
  "add_task t s = s\<lparr>background_tasks := background_tasks s @ [t]\<rparr>"

text \<open>\<^verbatim>\<open>db.add(new_user); db.commit()\<close>\<close>

definition add_user :: "user \<Rightarrow> app_state \<Rightarrow> app_state" where
  "add_user u s = s\<lparr>users := users s @ [u]\<rparr>"

text \<open>
  \<^verbatim>\<open>v[k]\<close> for a string key: a dictionary without the key raises \<^verbatim>\<open>KeyError\<close>, and
  every other value \<^verbatim>\<open>TypeError\<close> (in the wording of CPython 3.11).
\<close>

definition no_subscript :: "string \<Rightarrow> string" where
  "no_subscript ty = [CHR 0x27] @ ty @ [CHR 0x27] @ '' object is not subscriptable''"

definition bad_index :: "string \<Rightarrow> string" where
  "bad_index ty = ty @ '' indices must be integers or slices, not str''"

fun not_subscriptable :: "pyval \<Rightarrow> string" where
  "not_subscriptable PNone = no_subscript ''NoneType''"
| "not_subscriptable PEllipsis = no_subscript ''ellipsis''"
| "not_subscriptable (PBool b) = no_subscript ''bool''"
| "not_subscriptable (PInt i) = no_subscript ''int''"
| "not_subscriptable (PFloat r) = no_subscript ''float''"
| "not_subscriptable (PComplex r) = no_subscript ''complex''"
| "not_subscriptable (PSet xs) = no_subscript ''set''"
| "not_subscriptable (PBytes b) = bad_index ''byte''"
| "not_subscriptable (PList xs) = bad_index ''list''"
| "not_subscriptable (PTuple xs) = bad_index ''tuple''"
| "not_subscriptable v = ''string indices must be integers, not '' @ [CHR 0x27] @ ''str'' @ [CHR 0x27]"

definition subscript :: "pyval \<Rightarrow> string \<Rightarrow> exc + pyval" where
  "subscript v k =
     (case v of
        PDict kvs \<Rightarrow> (case map_of kvs (PStr k) of None \<Rightarrow> Inl (KeyError k) | Some x \<Rightarrow> Inr x)
      | _ \<Rightarrow> Inl (TypeError (not_subscriptable v)))"

text \<open>\<^verbatim>\<open>credentials.model_dump()\<close>\<close>

definition model_dump :: "credentials \<Rightarrow> pyval" where
  "model_dump c =
     PDict [(PStr ''email'', PStr (credentials.email c)),
            (PStr ''password'', PStr (password c))]"

definition token_body :: "token \<Rightarrow> token \<Rightarrow> pyval" where
  "token_body access_token refresh_token =
     PDict [(PStr ''access_token'', PToken access_token),
            (PStr ''refresh_token'', PToken refresh_token),
            (PStr ''token_type'', PStr ''bearer'')]"

section \<open>user.py\<close>

text \<open>
  \<^verbatim>\<open>login\<close>. The upstream call comes first and is not guarded; the two log lines
  format \<^verbatim>\<open>response.json()\<close>, which raises on a body that is not JSON.
\<close>

definition login :: "env \<Rightarrow> credentials \<Rightarrow> app_state \<Rightarrow> (exc + reply) \<times> app_state" where
  "login E creds s =
     (case make_request E \<lparr>endpoint = ''/token'', http_method = ''post'', data = model_dump creds\<rparr> of
        Inl e \<Rightarrow> (Inl e, s)
      | Inr response \<Rightarrow>
          (case authenticate_user E (credentials.email creds) (password creds) s of
             None \<Rightarrow> (Inl (http_exception 400 (PStr ''Incorrect username or password'')), s)
           | Some usr \<Rightarrow>
               (let access_token = create_access_token E (email usr);
                    refresh_token = create_refresh_token E (email usr)
                in if status_code response = 200 then
                     (case json response of
                        Inl e \<Rightarrow> (Inl e, s)
                      | Inr body \<Rightarrow>
                          (case subscript body ''access'' of
                             Inl e \<Rightarrow> (Inl e, s)
                           | Inr upstream_token \<Rightarrow>
                               (json_response (token_body access_token refresh_token) 200,
                                add_task (CleanupExpiredTokens (email usr))
                                  (add_token (email usr) upstream_token s))))
                   else
                     (case json response of
                        Inl e \<Rightarrow> (Inl e, s)
                      | Inr body \<Rightarrow>
                          (Inl (http_exception (status_code response) (PStr ''Failed to login'')), s)))))"

definition post_refresh_token :: "env \<Rightarrow> pyval \<Rightarrow> app_state \<Rightarrow> (exc + reply) \<times> app_state" where
  "post_refresh_token E refresh_token s =
     (case get_payload_from_refresh_token E refresh_token of
        Inl e \<Rightarrow> (Inl e, s)
      | Inr em \<Rightarrow>
          (case first_user em s of
             None \<Rightarrow> (Inl (http_exception 401 (PStr ''Invalid token'')), s)
           | Some usr \<Rightarrow>
               (Inr (Returned (token_body (create_access_token E em) (create_refresh_token E em))), s)))"

text \<open>
  \<^verbatim>\<open>register_user\<close>. Only \<^verbatim>\<open>ConnectionError\<close> is caught around the upstream call. The
  handler of the payment failure assigns \<^verbatim>\<open>status_code\<close> and \<^verbatim>\<open>content\<close>; the response
  that follows is built from \<^verbatim>\<open>content\<close> and the constant \<^verbatim>\<open>status.HTTP_201_CREATED\<close>.
\<close>

definition register_user :: "env \<Rightarrow> credentials \<Rightarrow> app_state \<Rightarrow> (exc + reply) \<times> app_state" where
  "register_user E creds s =
     (case make_request E
             \<lparr>endpoint = ''/user/register/'', http_method = ''post'', data = model_dump creds\<rparr> of
        Inl (ConnectionError m) \<Rightarrow>
          (json_response (PDict [(PStr ''error'', PStr (str_exc E (ConnectionError m)))]) 503, s)
      | Inl e \<Rightarrow> (Inl e, s)
      | Inr response \<Rightarrow>
          (case json response of
             Inl e \<Rightarrow> (Inl e, s)
           | Inr content \<Rightarrow>
               (if status_code response = 201 \<or> status_code response = 409 then
                  (let s1 = (case first_user (credentials.email creds) s of
                               None \<Rightarrow>
                                 add_user \<lparr>email = credentials.email creds,
                                           password_hash = pwd_hash E (password creds)\<rparr> s
                             | Some usr \<Rightarrow> s);
                       (created, s2) = processor_create_account E (credentials.email creds) s1;
                       (status_code', content') =
                          (case created of
                             Inr u \<Rightarrow> (status_code response, content)
                           | Inl e \<Rightarrow> (400, PDict [(PStr ''error'', PStr (str_exc E e))]))
                   in (json_response content' 201, s2))
                else (Inl (http_exception (status_code response) content), s))))"

section \<open>An example environment\<close>

text \<open>
  The general theorems below hold for every environment. The examples run in a
  concrete one. Its \<^verbatim>\<open>literal_eval\<close> reads a fragment of the Python literals and
  answers on it what Python answers: \<^verbatim>\<open>None\<close>, \<^verbatim>\<open>True\<close>, \<^verbatim>\<open>False\<close>, decimal integers
  with a sign, quoted strings without escapes, and lists, tuples and dictionaries
  of these with at most twenty brackets, on one line. No text that Python refuses
  is read; the literals beyond the fragment (floats, bytes, sets, escapes,
  comments, several lines) are refused here, and no example uses one.
\<close>

definition is_blank :: "char \<Rightarrow> bool" where
  "is_blank c = (c = CHR '' '' \<or> c = CHR 0x09)"

definition is_digit :: "char \<Rightarrow> bool" where
  "is_digit c = (48 \<le> (of_char c :: nat) \<and> (of_char c :: nat) \<le> 57)"

definition is_name_char :: "char \<Rightarrow> bool" where
  "is_name_char c =
     (is_digit c \<or> c = CHR ''_''
      \<or> (65 \<le> (of_char c :: nat) \<and> (of_char c :: nat) \<le> 90)
      \<or> (97 \<le> (of_char c :: nat) \<and> (of_char c :: nat) \<le> 122)
      \<or> 128 \<le> (of_char c :: nat))"

definition undec :: "string \<Rightarrow> int" where
  "undec ds = foldl (\<lambda>n c. 10 * n + int (of_char c - 48)) 0 ds"

definition read_string :: "char \<Rightarrow> string \<Rightarrow> (pyval \<times> string) option" where
  "read_string q cs =
     (case dropWhile (\<lambda>x. x \<noteq> q) cs of
        [] \<Rightarrow> None
      | x # rest \<Rightarrow>
          (let body = takeWhile (\<lambda>x. x \<noteq> q) cs
           in if CHR 0x5C \<in> set body \<or> CHR 0x0A \<in> set body \<or> CHR 0x0D \<in> set body
                 \<or> CHR 0x00 \<in> set body
              then None
              else (case rest of
                      [] \<Rightarrow> Some (PStr body, rest)
                    | y # ys \<Rightarrow> (if y = CHR 0x27 \<or> y = CHR 0x22 then None
                                 else Some (PStr body, rest)))))"

text \<open>
  Zeros alone may be repeated; another number has no leading zero. Python reads
  no more than 4300 digits.
\<close>

definition read_number :: "string \<Rightarrow> (int \<times> string) option" where
  "read_number cs =
     (let ds = takeWhile is_digit cs; rest = dropWhile is_digit cs
      in if ds = [] \<or> 4300 < length ds then None
         else if 1 < length ds \<and> take 1 ds = ''0'' \<and> undec ds \<noteq> 0 then None
         else (case rest of
                 [] \<Rightarrow> Some (undec ds, rest)
               | x # xs \<Rightarrow>
                   (if is_name_char x \<or> x = CHR ''.'' then None
                    else Some (undec ds, rest))))"

definition read_name :: "string \<Rightarrow> (pyval \<times> string) option" where
  "read_name cs =
     (let w = takeWhile is_name_char cs; rest = dropWhile is_name_char cs
      in if w = ''None'' then Some (PNone, rest)
         else if w = ''True'' then Some (PBool True, rest)
         else if w = ''False'' then Some (PBool False, rest)
         else None)"

text \<open>
  The keys of a dictionary are hashable, and equal keys (\<^verbatim>\<open>True\<close> is \<^verbatim>\<open>1\<close>,
  \<^verbatim>\<open>False\<close> is \<^verbatim>\<open>0\<close>) are one entry: the first key with the last value.
\<close>

fun hashable :: "pyval \<Rightarrow> bool" where
  "hashable (PList xs) = False"
| "hashable (PDict kvs) = False"
| "hashable (PSet xs) = False"
| "hashable (PTuple xs) = list_all hashable xs"
| "hashable v = True"

fun key_norm :: "pyval \<Rightarrow> pyval" where
  "key_norm (PBool b) = PInt (if b then 1 else 0)"
| "key_norm (PTuple xs) = PTuple (map key_norm xs)"
| "key_norm v = v"

fun dict_put :: "(pyval \<times> pyval) list \<Rightarrow> pyval \<Rightarrow> pyval \<Rightarrow> (pyval \<times> pyval) list" where
  "dict_put [] k v = [(k, v)]"
| "dict_put ((k', v') # kvs) k v =
     (if key_norm k' = key_norm k then (k', v) # kvs else (k', v') # dict_put kvs k v)"

fun read_literal :: "nat \<Rightarrow> string \<Rightarrow> (pyval \<times> string) option"
  and read_elems :: "nat \<Rightarrow> char \<Rightarrow> string \<Rightarrow> (pyval list \<times> bool \<times> string) option"
  and read_pairs :: "nat \<Rightarrow> (pyval \<times> pyval) list \<Rightarrow> string \<Rightarrow> ((pyval \<times> pyval) list \<times> string) option"
where
  "read_literal 0 cs = None"
| "read_literal (Suc n) cs =
     (case dropWhile is_blank cs of
        [] \<Rightarrow> None
      | c # r \<Rightarrow>
          (if c = CHR ''['' then
             (case read_elems n (CHR '']'') r of
                None \<Rightarrow> None
              | Some (xs, comma, rest) \<Rightarrow> Some (PList xs, rest))
           else if c = CHR ''('' then
             (case read_elems n (CHR '')'') r of
                None \<Rightarrow> None
              | Some (xs, comma, rest) \<Rightarrow>
                  (case xs of
                     [x] \<Rightarrow> (if comma then Some (PTuple xs, rest) else Some (x, rest))
                   | _ \<Rightarrow> Some (PTuple xs, rest)))
           else if c = CHR ''{'' then
             (case read_pairs n [] r of
                None \<Rightarrow> None
              | Some (kvs, rest) \<Rightarrow> Some (PDict kvs, rest))
           else if c = CHR 0x27 \<or> c = CHR 0x22 then read_string c r
           else if c = CHR ''-'' \<or> c = CHR ''+'' then
             (case read_number (dropWhile is_blank r) of
                None \<Rightarrow> None
              | Some (k, rest) \<Rightarrow>
                  Some (PInt (if c = CHR ''-'' then - k else k), rest))
           else if is_digit c then
             (case read_number (c # r) of
                None \<Rightarrow> None
              | Some (k, rest) \<Rightarrow> Some (PInt k, rest))
           else read_name (c # r)))"
| "read_elems 0 close cs = None"
| "read_elems (Suc n) close cs =
     (case dropWhile is_blank cs of
        [] \<Rightarrow> None
      | c # r \<Rightarrow>
          (if c = close then Some ([], False, r)
           else
             (case read_literal n (c # r) of
                None \<Rightarrow> None
              | Some (x, r1) \<Rightarrow>
                  (case dropWhile is_blank r1 of
                     [] \<Rightarrow> None
                   | d # r2 \<Rightarrow>
                       (if d = close then Some ([x], False, r2)
                        else if d = CHR '','' then
                          (case read_elems n close r2 of
                             None \<Rightarrow> None
                           | Some (xs, comma, r3) \<Rightarrow> Some (x # xs, True, r3))
                        else None)))))"
| "read_pairs 0 acc cs = None"
| "read_pairs (Suc n) acc cs =
     (case dropWhile is_blank cs of
        [] \<Rightarrow> None
      | c # r \<Rightarrow>
          (if c = CHR ''}'' then Some (acc, r)
           else
             (case read_literal n (c # r) of
                None \<Rightarrow> None
              | Some (k, r1) \<Rightarrow>
                  (case dropWhile is_blank r1 of
                     [] \<Rightarrow> None
                   | d # r2 \<Rightarrow>
                       (if d = CHR '':'' \<and> hashable k then
                          (case read_literal n r2 of
                             None \<Rightarrow> None
                           | Some (v, r3) \<Rightarrow>
                               (case dropWhile is_blank r3 of
                                  [] \<Rightarrow> None
                                | d' # r4 \<Rightarrow>
                                    (if d' = CHR ''}'' then Some (dict_put acc k v, r4)
                                     else if d' = CHR '','' then read_pairs n (dict_put acc k v) r4
                                     else None)))
                        else None)))))"

definition is_open :: "char \<Rightarrow> bool" where
  "is_open c = (c = CHR ''['' \<or> c = CHR ''('' \<or> c = CHR ''{'')"

definition literal_fragment :: "string \<Rightarrow> pyval option" where
  "literal_fragment text =
     (if 20 < length (filter is_open text) then None
      else
        (case read_literal (2 * length text + 2) text of
           None \<Rightarrow> None
         | Some (v, rest) \<Rightarrow> (if dropWhile is_blank rest = [] then Some v else None)))"

text \<open>
  The \<^verbatim>\<open>repr\<close> of the example environment, exact on ASCII text: a string is quoted
  with single quotes, or with double quotes where it holds a single quote and no
  double one; the quote, the backslash and the control characters are escaped. A
  set is printed in the order in which it is held.
\<close>

definition hex_digit :: "nat \<Rightarrow> char" where
  "hex_digit d = (if d < 10 then char_of (48 + d) else char_of (87 + d))"

definition escape_char :: "bool \<Rightarrow> char \<Rightarrow> char \<Rightarrow> string" where
  "escape_char bytes q c =
     (if c = q \<or> c = CHR 0x5C then [CHR 0x5C, c]
      else if c = CHR 0x09 then [CHR 0x5C, CHR ''t'']
      else if c = CHR 0x0A then [CHR 0x5C, CHR ''n'']
      else if c = CHR 0x0D then [CHR 0x5C, CHR ''r'']
      else if (of_char c :: nat) < 32 \<or> (of_char c :: nat) = 127
              \<or> (bytes \<and> 128 \<le> (of_char c :: nat))
      then [CHR 0x5C, CHR ''x'', hex_digit ((of_char c :: nat) div 16),
            hex_digit ((of_char c :: nat) mod 16)]
      else [c])"

definition repr_text :: "bool \<Rightarrow> string \<Rightarrow> string" where
  "repr_text bytes s =
     (let q = (if CHR 0x27 \<in> set s \<and> CHR 0x22 \<notin> set s then CHR 0x22 else CHR 0x27)
      in [q] @ concat (map (escape_char bytes q) s) @ [q])"

fun join :: "string list \<Rightarrow> string" where
  "join [] = []"
| "join [x] = x"
| "join (x # y # ys) = x @ '', '' @ join (y # ys)"

function digits :: "int \<Rightarrow> string" where
  "digits i = (if i < 10 then [digit (nat i)] else digits (i div 10) @ [digit (nat (i mod 10))])"
  by pat_completeness auto
termination
  by (relation "measure nat") auto

declare digits.simps [simp del]

definition repr_int :: "int \<Rightarrow> string" where
  "repr_int i = (if i < 0 then ''-'' @ digits (- i) else digits i)"

fun repr_value :: "(token \<Rightarrow> string) \<Rightarrow> pyval \<Rightarrow> string" where
  "repr_value tt PNone = ''None''"
| "repr_value tt PEllipsis = ''Ellipsis''"
| "repr_value tt (PBool b) = (if b then ''True'' else ''False'')"
| "repr_value tt (PInt i) = repr_int i"
| "repr_value tt (PFloat r) = r"
| "repr_value tt (PComplex r) = r"
| "repr_value tt (PStr s) = repr_text False s"
| "repr_value tt (PBytes b) = ''b'' @ repr_text True b"
| "repr_value tt (PToken t) = repr_text False (tt t)"
| "repr_value tt (PList xs) = ''['' @ join (map (repr_value tt) xs) @ '']''"
| "repr_value tt (PTuple xs) =
     (case xs of
        [x] \<Rightarrow> ''('' @ repr_value tt x @ '',)''
      | _ \<Rightarrow> ''('' @ join (map (repr_value tt) xs) @ '')'')"
| "repr_value tt (PSet xs) =
     (if xs = [] then ''set()'' else ''{'' @ join (map (repr_value tt) xs) @ ''}'')"
| "repr_value tt (PDict kvs) =
     ''{'' @ join (map (\<lambda>kv. repr_value tt (fst kv) @ '': '' @ repr_value tt (snd kv)) kvs) @ ''}''"

text \<open>
  The upstream accepts the registered password of \<^verbatim>\<open>ana@predico.eu\<close> and answers
  401 to every other login; it registers a new email with 201. The payment
  gateway is out of reach: every call of it raises. The texts that the examples
  hand to \<^verbatim>\<open>literal_eval\<close> and that it refuses are syntax errors, whose message is
  the one given.
\<close>

definition upstream :: "request \<Rightarrow> exc + response" where
  "upstream req =
     (if endpoint req = ''/token'' then
        (if data req = PDict [(PStr ''email'', PStr ''ana@predico.eu''),
                              (PStr ''password'', PStr ''s3cret'')]
         then Inr \<lparr>status_code = 200,
                   json = Inr (PDict [(PStr ''access'', PStr ''upstream-token''),
                                      (PStr ''refresh'', PStr ''upstream-refresh'')])\<rparr>
         else Inr \<lparr>status_code = 401,
                   json = Inr (PDict [(PStr ''detail'', PStr ''No active account found'')])\<rparr>)
      else if endpoint req = ''/user/register/'' then
        Inr \<lparr>status_code = 201, json = Inr (PDict [(PStr ''code'', PInt 201)])\<rparr>
      else Inl (ConnectionError ''Max retries exceeded''))"

definition token_text0 :: "token \<Rightarrow> string" where
  "token_text0 t = subject t @ ''.'' @ dec (expiry t) @ ''.'' @ signature t"

definition env0 :: env where
  "env0 =
     \<lparr>payment_processor = EthereumSmartContract,
      pp_create_account = (\<lambda>i. Inl (OtherException ''gateway unreachable'')),
      pp_get_account_data = (\<lambda>i. Inl (OtherException ''gateway unreachable'')),
      pp_get_balance = (\<lambda>i. Inl (WalletException ''gateway unreachable'')),
      pp_request_funds = (\<lambda>i. Inl (OtherException ''gateway unreachable'')),
      make_request = upstream,
      pwd_hash = (\<lambda>pw. ''hash:'' @ pw),
      pwd_verify = (\<lambda>pw h. h = ''hash:'' @ pw),
      sign = (\<lambda>sub exp. ''sig:'' @ sub @ '':'' @ dec exp),
      now = 1000,
      access_ttl = 30,
      refresh_ttl = 600,
      token_text = token_text0,
      literal_eval = literal_fragment,
      literal_eval_message = (\<lambda>text. ''invalid syntax (<unknown>, line 1)''),
      py_repr = repr_value token_text0\<rparr>"

definition ana :: user where
  "ana = \<lparr>email = ''ana@predico.eu'', password_hash = ''hash:s3cret''\<rparr>"

definition empty_state :: app_state where
  "empty_state = \<lparr>users = [], tokens = [], sdk_calls = [], background_tasks = []\<rparr>"

definition ana_state :: app_state where
  "ana_state = \<lparr>users = [ana], tokens = [], sdk_calls = [], background_tasks = []\<rparr>"

definition ana_login :: credentials where
  "ana_login = \<lparr>credentials.email = ''ana@predico.eu'', password = ''s3cret''\<rparr>"

definition ana_old :: credentials where
  "ana_old = \<lparr>credentials.email = ''ana@predico.eu'', password = ''old''\<rparr>"

definition bob :: credentials where
  "bob = \<lparr>credentials.email = ''bob@predico.eu'', password = ''pw''\<rparr>"

text \<open>A local row whose hash is of an older password than the one the upstream knows.\<close>

definition stale_state :: app_state where
  "stale_state =
     \<lparr>users = [\<lparr>email = ''ana@predico.eu'', password_hash = ''hash:old''\<rparr>],
      tokens = [], sdk_calls = [], background_tasks = []\<rparr>"

text \<open>The upstream once the email is registered there: 409 to every registration.\<close>

definition upstream_conflict :: "request \<Rightarrow> exc + response" where
  "upstream_conflict req =
     Inr \<lparr>status_code = 409,
          json = Inr (PDict [(PStr ''detail'', PStr ''already registered'')])\<rparr>"

text \<open>A gateway whose errors are written as Python literals.\<close>

definition env_literal :: env where
  "env_literal =
     env0\<lparr>payment_processor := IOTAPaymentController,
          pp_get_account_data := (\<lambda>i. Inl (OtherException ''{404: None}'')),
          pp_get_balance := (\<lambda>i. Inl (OtherException ''{404: None}''))\<rparr>"

text \<open>
  A gateway that knows the account of \<^verbatim>\<open>ana@predico.eu\<close>: with IOTA the balance is
  kept under the email, with Ethereum under the address \<^verbatim>\<open>0xA1\<close>.
\<close>

definition env_iota :: env where
  "env_iota =
     env0\<lparr>payment_processor := IOTAPaymentController,
          pp_create_account := (\<lambda>i. Inr ()),
          pp_get_account_data :=
            (\<lambda>i. if i = ''ana@predico.eu'' then Inr \<lparr>address = ''iota1qa''\<rparr>
                  else Inl (WalletException ''unknown account'')),
          pp_get_balance :=
            (\<lambda>i. if i = ''ana@predico.eu'' then Inr (PDict [(PStr ''balance'', PInt 25)])
                  else Inl (WalletException ''unknown account''))\<rparr>"

definition env_ethereum :: env where
  "env_ethereum =
     env0\<lparr>pp_create_account := (\<lambda>i. Inr ()),
          pp_get_account_data :=
            (\<lambda>i. if i = ''ana@predico.eu'' then Inr \<lparr>address = ''0xA1''\<rparr>
                  else Inl (WalletException ''unknown account'')),
          pp_get_balance :=
            (\<lambda>i. if i = ''0xA1'' then Inr (PDict [(PStr ''balance'', PInt 25)])
                  else Inl (WalletException ''unknown account''))\<rparr>"

definition forged :: token where
  "forged = \<lparr>subject = ''eve@predico.eu'', expiry = 1600, signature = ''sig:ana@predico.eu:1600''\<rparr>"

section \<open>Shared lemmas\<close>

lemma dec_400: "dec 400 = ''400''"
  by code_simp

lemma fragment_faucet: "literal_fragment ''400: Faucet not available for Ethereum'' = None"
  by code_simp

lemma fragment_gateway: "literal_fragment ''gateway unreachable'' = None"
  by code_simp

lemma fragment_dict: "literal_fragment ''{404: None}'' = Some (PDict [(PInt 404, PNone)])"
  by code_simp

lemma http_exception_str [simp]: "http_exception st (PStr x) = HTTPException st (PStr x)"
  by (simp add: http_exception_def)

lemma http_phrase_400: "http_phrase 400 = Some ''Bad Request''"
  by (simp add: http_phrase_def)

lemma http_exception_400:
  "http_exception 400 d = HTTPException 400 (if d = PNone then PStr ''Bad Request'' else d)"
  by (simp add: http_exception_def http_phrase_400)

lemma dumps_error_token_body [simp]: "dumps_error (token_body a r) = None"
  by (simp add: token_body_def)

lemma authenticate_user_None:
  "authenticate_user E e pw s = None \<longleftrightarrow>
     (first_user e s = None
      \<or> (\<exists>u. first_user e s = Some u \<and> \<not> pwd_verify E pw (password_hash u)))"
  by (auto simp: authenticate_user_def split: option.splits)

lemma first_user_email: "first_user e s = Some u \<Longrightarrow> email u = e"
  by (auto simp: first_user_def find_Some_iff)

lemma authenticate_user_email: "authenticate_user E e pw s = Some u \<Longrightarrow> email u = e"
  by (auto simp: authenticate_user_def first_user_email split: option.splits if_splits)

lemma find_snoc: "find P xs = None \<Longrightarrow> P x \<Longrightarrow> find P (xs @ [x]) = Some x"
  by (induction xs) (auto split: if_splits)

lemma first_user_None_filter:
  "first_user e s = None \<Longrightarrow> filter (\<lambda>u. email u = e) (users s) = []"
  by (auto simp: first_user_def find_None_iff filter_empty_conv)

lemma first_user_added:
  "first_user e s = None \<Longrightarrow> email u = e \<Longrightarrow> first_user e (called c (add_user u s)) = Some u"
  by (simp add: first_user_def called_def add_user_def find_snoc)

text \<open>
  A registration that the upstream answers with 201 or 409 and a JSON body: the
  row is written where none has the email, \<^verbatim>\<open>create_account\<close> is called for the
  email, and the response is built with 201 from the upstream body, or from the
  error of \<^verbatim>\<open>create_account\<close>.
\<close>

lemma register_user_accepted:
  assumes "make_request E
             \<lparr>endpoint = ''/user/register/'', http_method = ''post'', data = model_dump c\<rparr> = Inr r"
    and "status_code r = 201 \<or> status_code r = 409"
    and "json r = Inr b"
  shows "register_user E c s =
           (json_response
              (case pp_create_account E (credentials.email c) of
                 Inr u \<Rightarrow> b
               | Inl e \<Rightarrow> PDict [(PStr ''error'', PStr (str_exc E e))]) 201,
            called (CreateAccount (credentials.email c))
              (case first_user (credentials.email c) s of
                 None \<Rightarrow>
                   add_user \<lparr>email = credentials.email c,
                             password_hash = pwd_hash E (password c)\<rparr> s
               | Some usr \<Rightarrow> s))"
  using assms
  by (auto simp: register_user_def processor_create_account_def Let_def
        split: sum.splits prod.splits)

lemma json_response_error [simp]:
  "json_response (PDict [(PStr ''error'', PStr m)]) st =
     Inr (JSONResponse (PDict [(PStr ''error'', PStr m)]) st)"
  by (simp add: json_response_def)

lemma upstream_login_ana:
  "make_request env0 \<lparr>endpoint = ''/token'', http_method = ''post'', data = model_dump ana_login\<rparr> =
     Inr \<lparr>status_code = 200,
          json = Inr (PDict [(PStr ''access'', PStr ''upstream-token''),
                             (PStr ''refresh'', PStr ''upstream-refresh'')])\<rparr>"
  by (simp add: env0_def upstream_def model_dump_def ana_login_def)

lemma upstream_login_old:
  "make_request env0 \<lparr>endpoint = ''/token'', http_method = ''post'', data = model_dump ana_old\<rparr> =
     Inr \<lparr>status_code = 401,
          json = Inr (PDict [(PStr ''detail'', PStr ''No active account found'')])\<rparr>"
  by (simp add: env0_def upstream_def model_dump_def ana_old_def)

lemma upstream_register_bob:
  "make_request env0
     \<lparr>endpoint = ''/user/register/'', http_method = ''post'', data = model_dump bob\<rparr> =
     Inr \<lparr>status_code = 201, json = Inr (PDict [(PStr ''code'', PInt 201)])\<rparr>"
  by (simp add: env0_def upstream_def)

section \<open>Registration\<close>

text \<open>
  C1. Claimed: when the upstream answers 201 or 409 and the creation of the payment
  account raises, the response of the registration has an error status, and the
  local user row stays. The code keeps the row, but builds the response with the
  constant 201: at the new email \<^verbatim>\<open>bob@predico.eu\<close>, registered upstream with 201
  while the gateway raises, the row is written, the body is the error, and the
  status is 201.
\<close>

theorem register_payment_failure_is_201:
  "register_user env0 bob empty_state =
     (Inr (JSONResponse (PDict [(PStr ''error'', PStr ''gateway unreachable'')]) 201),
      \<lparr>users = [\<lparr>email = ''bob@predico.eu'', password_hash = ''hash:pw''\<rparr>],
       tokens = [],
       sdk_calls = [CreateAccount ''bob@predico.eu''],
       background_tasks = []\<rparr>)
   \<and> pp_create_account env0 ''bob@predico.eu'' = Inl (OtherException ''gateway unreachable'')
   \<and> http_status (fst (register_user env0 bob empty_state)) = 201"
proof -
  have c: "pp_create_account env0 (credentials.email bob) = Inl (OtherException ''gateway unreachable'')"
    by (simp add: env0_def)
  have r: "register_user env0 bob empty_state =
     (Inr (JSONResponse (PDict [(PStr ''error'', PStr ''gateway unreachable'')]) 201),
      \<lparr>users = [\<lparr>email = ''bob@predico.eu'', password_hash = ''hash:pw''\<rparr>],
       tokens = [],
       sdk_calls = [CreateAccount ''bob@predico.eu''],
       background_tasks = []\<rparr>)"
    using register_user_accepted[OF upstream_register_bob, where s = empty_state] c
    by (simp add: env0_def bob_def empty_state_def first_user_def add_user_def called_def)
  show ?thesis unfolding r by (simp add: env0_def)
qed

text \<open>
  C7. Registering the same email twice. The first call, answered 201 or 409 by the
  upstream, finds no local row for the email and writes one. The second call,
  answered 409, writes none: the rows are those after the first call, exactly one
  of them has the email, and \<^verbatim>\<open>create_account\<close> is called once more for that email.
  That call is the processor's: the second response is built from what
  \<^verbatim>\<open>create_account\<close> answers for the email, the upstream body where it returns and
  its error where it raises, always with 201.
\<close>

theorem register_twice_one_row:
  assumes "make_request E1
             \<lparr>endpoint = ''/user/register/'', http_method = ''post'', data = model_dump c1\<rparr> = Inr r1"
    and "status_code r1 = 201 \<or> status_code r1 = 409"
    and "json r1 = Inr b1"
    and "make_request E2
             \<lparr>endpoint = ''/user/register/'', http_method = ''post'', data = model_dump c2\<rparr> = Inr r2"
    and "status_code r2 = 409"
    and "json r2 = Inr b2"
    and "credentials.email c2 = credentials.email c1"
    and "first_user (credentials.email c1) s = None"
  shows "users (snd (register_user E1 c1 s)) =
           users s @ [\<lparr>email = credentials.email c1, password_hash = pwd_hash E1 (password c1)\<rparr>]
    \<and> users (snd (register_user E2 c2 (snd (register_user E1 c1 s)))) =
        users (snd (register_user E1 c1 s))
    \<and> length (filter (\<lambda>u. email u = credentials.email c1)
                (users (snd (register_user E2 c2 (snd (register_user E1 c1 s)))))) = 1
    \<and> sdk_calls (snd (register_user E2 c2 (snd (register_user E1 c1 s)))) =
        sdk_calls (snd (register_user E1 c1 s)) @ [CreateAccount (credentials.email c1)]
    \<and> fst (register_user E2 c2 (snd (register_user E1 c1 s))) =
        json_response
          (case pp_create_account E2 (credentials.email c1) of
             Inr u \<Rightarrow> b2
           | Inl e \<Rightarrow> PDict [(PStr ''error'', PStr (str_exc E2 e))]) 201
    \<and> (\<forall>e. pp_create_account E2 (credentials.email c1) = Inl e \<longrightarrow>
          fst (register_user E2 c2 (snd (register_user E1 c1 s))) =
            Inr (JSONResponse (PDict [(PStr ''error'', PStr (str_exc E2 e))]) 201))
    \<and> fst (register_user E1 c1 s) =
        json_response
          (case pp_create_account E1 (credentials.email c1) of
             Inr u \<Rightarrow> b1
           | Inl e \<Rightarrow> PDict [(PStr ''error'', PStr (str_exc E1 e))]) 201"
proof -
  let ?u = "\<lparr>email = credentials.email c1, password_hash = pwd_hash E1 (password c1)\<rparr>"
  let ?s1 = "snd (register_user E1 c1 s)"
  note r1 = register_user_accepted[OF assms(1,2,3), where s = s]
  have s1: "?s1 = called (CreateAccount (credentials.email c1)) (add_user ?u s)"
    using r1 assms(8) by simp
  have found: "first_user (credentials.email c2) ?s1 = Some ?u"
    using first_user_added[OF assms(8), of ?u] assms(7) s1 by simp
  have r2: "register_user E2 c2 ?s1 =
              (json_response
                 (case pp_create_account E2 (credentials.email c1) of
                    Inr u \<Rightarrow> b2
                  | Inl e \<Rightarrow> PDict [(PStr ''error'', PStr (str_exc E2 e))]) 201,
               called (CreateAccount (credentials.email c1)) ?s1)"
    using register_user_accepted[OF assms(4) _ assms(6), where s = ?s1] assms(5,7) found by simp
  have u1: "users ?s1 = users s @ [?u]"
    by (simp add: s1 called_def add_user_def)
  have u2: "users (snd (register_user E2 c2 ?s1)) = users ?s1"
    by (simp add: r2 called_def)
  have cnt: "length (filter (\<lambda>u. email u = credentials.email c1) (users ?s1)) = 1"
    by (simp add: u1 first_user_None_filter[OF assms(8)])
  have calls: "sdk_calls (snd (register_user E2 c2 ?s1)) =
                 sdk_calls ?s1 @ [CreateAccount (credentials.email c1)]"
    by (simp add: r2 called_def)
  have f2: "fst (register_user E2 c2 ?s1) =
              json_response
                (case pp_create_account E2 (credentials.email c1) of
                   Inr u \<Rightarrow> b2
                 | Inl e \<Rightarrow> PDict [(PStr ''error'', PStr (str_exc E2 e))]) 201"
    by (simp add: r2)
  have f2e: "\<forall>e. pp_create_account E2 (credentials.email c1) = Inl e \<longrightarrow>
          fst (register_user E2 c2 ?s1) =
            Inr (JSONResponse (PDict [(PStr ''error'', PStr (str_exc E2 e))]) 201)"
    by (simp add: f2)
  have f1: "fst (register_user E1 c1 s) =
              json_response
                (case pp_create_account E1 (credentials.email c1) of
                   Inr u \<Rightarrow> b1
                 | Inl e \<Rightarrow> PDict [(PStr ''error'', PStr (str_exc E1 e))]) 201"
    by (simp add: r1)
  show ?thesis using u1 u2 cnt calls f2 f2e f1 by simp
qed

text \<open>
  The first call creates the account of \<^verbatim>\<open>bob@predico.eu\<close> and returns the upstream
  body; at the second the gateway refuses the account that exists, and the
  response carries that error.
\<close>

theorem register_twice_one_row_witness:
  "make_request (env_iota\<lparr>make_request := upstream\<rparr>)
     \<lparr>endpoint = ''/user/register/'', http_method = ''post'', data = model_dump bob\<rparr> =
     Inr \<lparr>status_code = 201, json = Inr (PDict [(PStr ''code'', PInt 201)])\<rparr>
   \<and> make_request (env0\<lparr>make_request := upstream_conflict\<rparr>)
       \<lparr>endpoint = ''/user/register/'', http_method = ''post'', data = model_dump bob\<rparr> =
     Inr \<lparr>status_code = 409,
          json = Inr (PDict [(PStr ''detail'', PStr ''already registered'')])\<rparr>
   \<and> first_user (credentials.email bob) empty_state = None
   \<and> pp_create_account (env0\<lparr>make_request := upstream_conflict\<rparr>) (credentials.email bob) =
       Inl (OtherException ''gateway unreachable'')
   \<and> fst (register_user (env_iota\<lparr>make_request := upstream\<rparr>) bob empty_state) =
       Inr (JSONResponse (PDict [(PStr ''code'', PInt 201)]) 201)
   \<and> users (snd (register_user (env_iota\<lparr>make_request := upstream\<rparr>) bob empty_state)) =
       [\<lparr>email = ''bob@predico.eu'', password_hash = ''hash:pw''\<rparr>]
   \<and> users (snd (register_user (env0\<lparr>make_request := upstream_conflict\<rparr>) bob
                   (snd (register_user (env_iota\<lparr>make_request := upstream\<rparr>) bob empty_state)))) =
       [\<lparr>email = ''bob@predico.eu'', password_hash = ''hash:pw''\<rparr>]
   \<and> sdk_calls (snd (register_user (env0\<lparr>make_request := upstream_conflict\<rparr>) bob
                       (snd (register_user (env_iota\<lparr>make_request := upstream\<rparr>) bob empty_state)))) =
       [CreateAccount ''bob@predico.eu'', CreateAccount ''bob@predico.eu'']
   \<and> fst (register_user (env0\<lparr>make_request := upstream_conflict\<rparr>) bob
             (snd (register_user (env_iota\<lparr>make_request := upstream\<rparr>) bob empty_state))) =
       Inr (JSONResponse (PDict [(PStr ''error'', PStr ''gateway unreachable'')]) 201)"
proof -
  let ?E1 = "env_iota\<lparr>make_request := upstream\<rparr>"
  let ?E2 = "env0\<lparr>make_request := upstream_conflict\<rparr>"
  have h1: "make_request ?E1
       \<lparr>endpoint = ''/user/register/'', http_method = ''post'', data = model_dump bob\<rparr> =
     Inr \<lparr>status_code = 201, json = Inr (PDict [(PStr ''code'', PInt 201)])\<rparr>"
    by (simp add: upstream_def)
  have h4: "make_request ?E2
       \<lparr>endpoint = ''/user/register/'', http_method = ''post'', data = model_dump bob\<rparr> =
     Inr \<lparr>status_code = 409,
          json = Inr (PDict [(PStr ''detail'', PStr ''already registered'')])\<rparr>"
    by (simp add: upstream_conflict_def)
  have h8: "first_user (credentials.email bob) empty_state = None"
    by (simp add: first_user_def empty_state_def)
  have c1: "pp_create_account ?E1 (credentials.email bob) = Inr ()"
    by (simp add: env_iota_def)
  have c2: "pp_create_account ?E2 (credentials.email bob) = Inl (OtherException ''gateway unreachable'')"
    by (simp add: env0_def)
  have e: "pwd_hash ?E1 (password bob) = ''hash:pw''" "credentials.email bob = ''bob@predico.eu''"
    "users empty_state = []"
    by (simp_all add: env_iota_def env0_def bob_def empty_state_def)
  have j: "json_response (PDict [(PStr ''code'', PInt 201)]) 201 =
             Inr (JSONResponse (PDict [(PStr ''code'', PInt 201)]) 201)"
    by (simp add: json_response_def)
  have k: "sdk_calls (snd (register_user ?E1 bob empty_state)) = [CreateAccount ''bob@predico.eu'']"
    using register_user_accepted[OF h1, where s = empty_state] h8
    by (simp add: called_def add_user_def empty_state_def bob_def)
  show ?thesis
    using register_twice_one_row[OF h1 _ _ h4 _ _ _ h8] h1 h4 h8 c1 c2 e j k
    by simp
qed

section \<open>Login\<close>

text \<open>
  Where the upstream call itself raises (a connection failure), nothing guards it:
  \<^verbatim>\<open>login\<close> raises that exception before any local check.
\<close>

lemma login_upstream_raises:
  "make_request E
     \<lparr>endpoint = ''/token'', http_method = ''post'', data = model_dump creds\<rparr> = Inl e
   \<Longrightarrow> login E creds s = (Inl e, s)"
  by (simp add: login_def)

text \<open>
  C4. When the upstream call returns (whatever its status and body), and the local
  check fails, because no local row has the email or because the password does not
  verify against the stored hash, \<^verbatim>\<open>login\<close> raises
  \<^verbatim>\<open>HTTPException(status_code=400)\<close> and changes nothing. The upstream status plays
  no part: the check comes before the status is read.
\<close>

theorem login_local_mismatch_is_400:
  assumes "make_request E
             \<lparr>endpoint = ''/token'', http_method = ''post'', data = model_dump creds\<rparr> = Inr r"
    and "first_user (credentials.email creds) s = None
         \<or> (\<exists>u. first_user (credentials.email creds) s = Some u
                \<and> \<not> pwd_verify E (password creds) (password_hash u))"
  shows "login E creds s = (Inl (HTTPException 400 (PStr ''Incorrect username or password'')), s)
         \<and> http_status (fst (login E creds s)) = 400"
proof -
  from assms(2) have "authenticate_user E (credentials.email creds) (password creds) s = None"
    by (simp add: authenticate_user_None)
  with assms(1) show ?thesis by (simp add: login_def)
qed

text \<open>The upstream accepts the credentials (200); the local hash is of another password.\<close>

theorem login_local_mismatch_is_400_witness:
  "make_request env0
     \<lparr>endpoint = ''/token'', http_method = ''post'', data = model_dump ana_login\<rparr> =
     Inr \<lparr>status_code = 200,
          json = Inr (PDict [(PStr ''access'', PStr ''upstream-token''),
                             (PStr ''refresh'', PStr ''upstream-refresh'')])\<rparr>
   \<and> first_user (credentials.email ana_login) stale_state =
       Some \<lparr>email = ''ana@predico.eu'', password_hash = ''hash:old''\<rparr>
   \<and> \<not> pwd_verify env0 (password ana_login) ''hash:old''
   \<and> login env0 ana_login stale_state =
       (Inl (HTTPException 400 (PStr ''Incorrect username or password'')), stale_state)
   \<and> http_status (fst (login env0 ana_login stale_state)) = 400"
proof -
  have f: "first_user (credentials.email ana_login) stale_state =
             Some \<lparr>email = ''ana@predico.eu'', password_hash = ''hash:old''\<rparr>"
    by (simp add: first_user_def ana_login_def stale_state_def)
  have v: "\<not> pwd_verify env0 (password ana_login) ''hash:old''"
    by (simp add: env0_def ana_login_def)
  have h: "first_user (credentials.email ana_login) stale_state = None
         \<or> (\<exists>u. first_user (credentials.email ana_login) stale_state = Some u
                \<and> \<not> pwd_verify env0 (password ana_login) (password_hash u))"
    using f v by simp
  show ?thesis
    using login_local_mismatch_is_400[OF upstream_login_ana h] upstream_login_ana f v by simp
qed

text \<open>
  C5. When the upstream answers 200 with a JSON object that holds its token under
  \<^verbatim>\<open>access\<close>, and the local check succeeds with the row \<open>usr\<close>, \<^verbatim>\<open>login\<close> answers 200
  with a body whose \<^verbatim>\<open>access_token\<close> and \<^verbatim>\<open>refresh_token\<close> are the tokens signed for
  the email of \<open>usr\<close>; the upstream token is appended to the cached tokens of that
  email, and the cleanup of that email is appended to the background tasks, which
  run after the response (the cached tokens are otherwise as they were).
\<close>

theorem login_success:
  assumes "make_request E
             \<lparr>endpoint = ''/token'', http_method = ''post'', data = model_dump creds\<rparr> = Inr r"
    and "status_code r = 200"
    and "json r = Inr (PDict kvs)"
    and "map_of kvs (PStr ''access'') = Some upstream_token"
    and "authenticate_user E (credentials.email creds) (password creds) s = Some usr"
  shows "fst (login E creds s) =
           Inr (JSONResponse (token_body (create_access_token E (email usr))
                                         (create_refresh_token E (email usr))) 200)
         \<and> http_status (fst (login E creds s)) = 200
         \<and> subscript (token_body (create_access_token E (email usr))
                                   (create_refresh_token E (email usr))) ''access_token'' =
             Inr (PToken (create_access_token E (email usr)))
         \<and> subscript (token_body (create_access_token E (email usr))
                                   (create_refresh_token E (email usr))) ''refresh_token'' =
             Inr (PToken (create_refresh_token E (email usr)))
         \<and> subject (create_access_token E (email usr)) = credentials.email creds
         \<and> subject (create_refresh_token E (email usr)) = credentials.email creds
         \<and> tokens (snd (login E creds s)) =
             tokens s @ [\<lparr>user_email = email usr, cached = upstream_token\<rparr>]
         \<and> background_tasks (snd (login E creds s)) =
             background_tasks s @ [CleanupExpiredTokens (email usr)]"
  using assms authenticate_user_email[OF assms(5)]
  by (simp add: login_def subscript_def add_token_def add_task_def Let_def token_body_def
        json_response_def create_access_token_def create_refresh_token_def)

theorem login_success_witness:
  "make_request env0
     \<lparr>endpoint = ''/token'', http_method = ''post'', data = model_dump ana_login\<rparr> =
     Inr \<lparr>status_code = 200,
          json = Inr (PDict [(PStr ''access'', PStr ''upstream-token''),
                             (PStr ''refresh'', PStr ''upstream-refresh'')])\<rparr>
   \<and> authenticate_user env0 (credentials.email ana_login) (password ana_login) ana_state = Some ana
   \<and> fst (login env0 ana_login ana_state) =
       Inr (JSONResponse
             (token_body
               \<lparr>subject = ''ana@predico.eu'', expiry = 1030, signature = ''sig:ana@predico.eu:1030''\<rparr>
               \<lparr>subject = ''ana@predico.eu'', expiry = 1600, signature = ''sig:ana@predico.eu:1600''\<rparr>)
             200)
   \<and> tokens (snd (login env0 ana_login ana_state)) =
       [\<lparr>user_email = ''ana@predico.eu'', cached = PStr ''upstream-token''\<rparr>]
   \<and> background_tasks (snd (login env0 ana_login ana_state)) =
       [CleanupExpiredTokens ''ana@predico.eu'']"
proof -
  have a: "authenticate_user env0 (credentials.email ana_login) (password ana_login) ana_state = Some ana"
    by (simp add: authenticate_user_def first_user_def ana_login_def ana_state_def ana_def env0_def)
  have m: "map_of [(PStr ''access'', PStr ''upstream-token''),
                   (PStr ''refresh'', PStr ''upstream-refresh'')] (PStr ''access'') =
             Some (PStr ''upstream-token'')"
    by simp
  have d1: "dec 1030 = ''1030''" and d2: "dec 1600 = ''1600''"
    by code_simp+
  have t: "create_access_token env0 (email ana) =
             \<lparr>subject = ''ana@predico.eu'', expiry = 1030, signature = ''sig:ana@predico.eu:1030''\<rparr>"
          "create_refresh_token env0 (email ana) =
             \<lparr>subject = ''ana@predico.eu'', expiry = 1600, signature = ''sig:ana@predico.eu:1600''\<rparr>"
    by (simp_all add: create_access_token_def create_refresh_token_def env0_def ana_def d1 d2)
  have e: "email ana = ''ana@predico.eu''" "tokens ana_state = []" "background_tasks ana_state = []"
    by (simp_all add: ana_def ana_state_def)
  show ?thesis
    using login_success[OF upstream_login_ana _ _ m a] upstream_login_ana a t e by simp
qed

text \<open>
  C3. Claimed: a login whose upstream status is not 2xx, and a social login whose
  upstream status is not 201, answer with the upstream status and the upstream
  body. \<^verbatim>\<open>login\<close> does not return the upstream body: with the upstream's 401 and its
  body \<^verbatim>\<open>{"detail": "No active account found"}\<close>, and a local row that verifies, the
  detail of the error is the constant \<^verbatim>\<open>"Failed to login"\<close>.
\<close>

theorem login_upstream_body_not_returned:
  "make_request env0
     \<lparr>endpoint = ''/token'', http_method = ''post'', data = model_dump ana_old\<rparr> =
     Inr \<lparr>status_code = 401,
          json = Inr (PDict [(PStr ''detail'', PStr ''No active account found'')])\<rparr>
   \<and> fst (login env0 ana_old stale_state) = Inl (HTTPException 401 (PStr ''Failed to login''))
   \<and> fst (login env0 ana_old stale_state) \<noteq>
       Inl (HTTPException 401 (PDict [(PStr ''detail'', PStr ''No active account found'')]))"
proof -
  have a: "authenticate_user env0 (credentials.email ana_old) (password ana_old) stale_state =
             Some \<lparr>email = ''ana@predico.eu'', password_hash = ''hash:old''\<rparr>"
    by (simp add: authenticate_user_def first_user_def ana_old_def stale_state_def env0_def)
  have l: "fst (login env0 ana_old stale_state) = Inl (HTTPException 401 (PStr ''Failed to login''))"
    unfolding login_def upstream_login_old a by (simp add: Let_def)
  show ?thesis unfolding l using upstream_login_old by simp
qed

text \<open>
  C3, as the code has it: when the upstream answers \<^verbatim>\<open>login\<close> with a status other
  than 200 and a JSON body, and the local check succeeds, \<^verbatim>\<open>login\<close> raises an
  \<^verbatim>\<open>HTTPException\<close> with the upstream status and the detail \<^verbatim>\<open>"Failed to login"\<close>, and
  changes nothing; the upstream body is logged only.
\<close>

theorem login_upstream_status_passed_on:
  assumes "make_request E
             \<lparr>endpoint = ''/token'', http_method = ''post'', data = model_dump creds\<rparr> = Inr r"
    and "status_code r \<noteq> 200"
    and "json r = Inr body"
    and "authenticate_user E (credentials.email creds) (password creds) s = Some usr"
  shows "login E creds s = (Inl (HTTPException (status_code r) (PStr ''Failed to login'')), s)
         \<and> http_status (fst (login E creds s)) = status_code r"
  using assms by (simp add: login_def Let_def)

theorem login_upstream_status_passed_on_witness:
  "make_request env0
     \<lparr>endpoint = ''/token'', http_method = ''post'', data = model_dump ana_old\<rparr> =
     Inr \<lparr>status_code = 401,
          json = Inr (PDict [(PStr ''detail'', PStr ''No active account found'')])\<rparr>
   \<and> authenticate_user env0 (credentials.email ana_old) (password ana_old) stale_state =
       Some \<lparr>email = ''ana@predico.eu'', password_hash = ''hash:old''\<rparr>
   \<and> login env0 ana_old stale_state =
       (Inl (HTTPException 401 (PStr ''Failed to login'')), stale_state)
   \<and> http_status (fst (login env0 ana_old stale_state)) = 401"
proof -
  have a: "authenticate_user env0 (credentials.email ana_old) (password ana_old) stale_state =
             Some \<lparr>email = ''ana@predico.eu'', password_hash = ''hash:old''\<rparr>"
    by (simp add: authenticate_user_def first_user_def ana_old_def stale_state_def env0_def)
  show ?thesis
    using login_upstream_status_passed_on[OF upstream_login_old _ _ a] upstream_login_old a by simp
qed

section \<open>Refreshing the local tokens\<close>

text \<open>
  C9. A refresh token that is correctly signed and not expired, whose subject has
  no local row: \<^verbatim>\<open>post_refresh_token\<close> raises \<^verbatim>\<open>HTTPException(status_code=401,
  detail="Invalid token")\<close>; no reply, hence no token, is produced, and the state
  is as it was.
\<close>

theorem refresh_without_local_user:
  assumes "signature t = sign E (subject t) (expiry t)"
    and "now E < expiry t"
    and "first_user (subject t) s = None"
  shows "post_refresh_token E (PToken t) s = (Inl (HTTPException 401 (PStr ''Invalid token'')), s)
         \<and> http_status (fst (post_refresh_token E (PToken t) s)) = 401"
  using assms by (simp add: post_refresh_token_def get_payload_from_refresh_token_def)

theorem refresh_without_local_user_witness:
  "signature (create_refresh_token env0 ''ghost@predico.eu'') =
     sign env0 (subject (create_refresh_token env0 ''ghost@predico.eu''))
               (expiry (create_refresh_token env0 ''ghost@predico.eu''))
   \<and> now env0 < expiry (create_refresh_token env0 ''ghost@predico.eu'')
   \<and> first_user (subject (create_refresh_token env0 ''ghost@predico.eu'')) ana_state = None
   \<and> post_refresh_token env0 (PToken (create_refresh_token env0 ''ghost@predico.eu'')) ana_state =
       (Inl (HTTPException 401 (PStr ''Invalid token'')), ana_state)
   \<and> http_status
       (fst (post_refresh_token env0 (PToken (create_refresh_token env0 ''ghost@predico.eu''))
              ana_state)) = 401"
proof -
  let ?t = "create_refresh_token env0 ''ghost@predico.eu''"
  have h1: "signature ?t = sign env0 (subject ?t) (expiry ?t)"
    by (simp add: create_refresh_token_def)
  have h2: "now env0 < expiry ?t"
    by (simp add: create_refresh_token_def env0_def)
  have h3: "first_user (subject ?t) ana_state = None"
    by (simp add: create_refresh_token_def first_user_def ana_state_def ana_def)
  show ?thesis
    using refresh_without_local_user[OF h1 h2 h3] h1 h2 h3 by simp
qed

text \<open>
  C8. A refresh token issued for an email that has a local row, handed to
  \<^verbatim>\<open>post_refresh_token\<close> under the same signing secret and before its expiry, is
  answered with a new access and refresh token whose subject is that email. A
  token that has expired, a token whose signature does not verify, and a string
  that is no token are answered with 401.
\<close>

theorem refresh_token_flow:
  "(first_user em s = Some usr \<and> sign E' = sign E \<and> now E' < now E + refresh_ttl E \<longrightarrow>
      post_refresh_token E' (PToken (create_refresh_token E em)) s =
        (Inr (Returned (token_body (create_access_token E' em) (create_refresh_token E' em))), s)
      \<and> subject (create_access_token E' em) = em
      \<and> subject (create_refresh_token E' em) = em)
   \<and> (expiry t \<le> now E' \<or> signature t \<noteq> sign E' (subject t) (expiry t) \<longrightarrow>
      http_status (fst (post_refresh_token E' (PToken t) s)) = 401)
   \<and> http_status (fst (post_refresh_token E' (PStr x) s)) = 401"
  by (auto simp: post_refresh_token_def get_payload_from_refresh_token_def
        create_refresh_token_def create_access_token_def)

text \<open>
  The token issued to \<^verbatim>\<open>ana@predico.eu\<close> at time 1000 expires at 1600: it is accepted
  at 1200 and refused at 1600, and a token with her signature and another subject
  is refused.
\<close>

theorem refresh_token_flow_witness:
  "first_user ''ana@predico.eu'' ana_state = Some ana
   \<and> now (env0\<lparr>now := 1200\<rparr>) < now env0 + refresh_ttl env0
   \<and> post_refresh_token (env0\<lparr>now := 1200\<rparr>) (PToken (create_refresh_token env0 ''ana@predico.eu''))
       ana_state =
       (Inr (Returned (token_body (create_access_token (env0\<lparr>now := 1200\<rparr>) ''ana@predico.eu'')
                                  (create_refresh_token (env0\<lparr>now := 1200\<rparr>) ''ana@predico.eu''))),
        ana_state)
   \<and> subject (create_refresh_token (env0\<lparr>now := 1200\<rparr>) ''ana@predico.eu'') = ''ana@predico.eu''
   \<and> expiry (create_refresh_token env0 ''ana@predico.eu'') \<le> now (env0\<lparr>now := 1600\<rparr>)
   \<and> http_status
       (fst (post_refresh_token (env0\<lparr>now := 1600\<rparr>)
              (PToken (create_refresh_token env0 ''ana@predico.eu'')) ana_state)) = 401
   \<and> signature forged \<noteq> sign (env0\<lparr>now := 1200\<rparr>) (subject forged) (expiry forged)
   \<and> http_status (fst (post_refresh_token (env0\<lparr>now := 1200\<rparr>) (PToken forged) ana_state)) = 401"
proof -
  have h1: "first_user ''ana@predico.eu'' ana_state = Some ana"
    by (simp add: first_user_def ana_state_def ana_def)
  have h2: "sign (env0\<lparr>now := 1200\<rparr>) = sign env0"
    by simp
  have h3: "now (env0\<lparr>now := 1200\<rparr>) < now env0 + refresh_ttl env0"
    by (simp add: env0_def)
  have h4: "expiry (create_refresh_token env0 ''ana@predico.eu'') \<le> now (env0\<lparr>now := 1600\<rparr>)"
    by (simp add: create_refresh_token_def env0_def)
  have d: "dec 1600 = ''1600''"
    by code_simp
  have h5: "signature forged \<noteq> sign (env0\<lparr>now := 1200\<rparr>) (subject forged) (expiry forged)"
    by (simp add: forged_def env0_def d)
  show ?thesis
    using refresh_token_flow[of "''ana@predico.eu''" ana_state ana "env0\<lparr>now := 1200\<rparr>" env0]
      refresh_token_flow[of _ ana_state _ "env0\<lparr>now := 1600\<rparr>" _
        "create_refresh_token env0 ''ana@predico.eu''"]
      refresh_token_flow[of _ ana_state _ "env0\<lparr>now := 1200\<rparr>" _ forged]
      h1 h2 h3 h4 h5
    by simp
qed


section \<open>The wallet routes\<close>

text \<open>
  C6. What \<^verbatim>\<open>get_balance\<close> asks of the payment processor. With the IOTA
  controller it calls \<^verbatim>\<open>get_balance\<close> alone, with the email of the user: the outcome
  of the route is made of what the processor answers for the email, and no
  other call is recorded. With any other processor it calls \<^verbatim>\<open>get_account_data\<close>
  with the email first; where that returns an account, it then calls
  \<^verbatim>\<open>get_balance\<close> with the address of the account, and the outcome is made of what
  the processor answers for that address; where that raises, \<^verbatim>\<open>get_balance\<close> is not
  called. A balance that the processor returns is the reply of the route.
\<close>

theorem get_balance_invokes_processor:
  "(payment_processor E = IOTAPaymentController \<longrightarrow>
      get_balance E u s =
        (get_balance_except E (pp_get_balance E (email u)),
         s\<lparr>sdk_calls := sdk_calls s @ [GetBalance (email u)]\<rparr>))
   \<and> (payment_processor E \<noteq> IOTAPaymentController
        \<and> pp_get_account_data E (email u) = Inr acc \<longrightarrow>
      get_balance E u s =
        (get_balance_except E (pp_get_balance E (address acc)),
         s\<lparr>sdk_calls := sdk_calls s @ [GetAccountData (email u), GetBalance (address acc)]\<rparr>))
   \<and> (payment_processor E \<noteq> IOTAPaymentController
        \<and> pp_get_account_data E (email u) = Inl e \<longrightarrow>
      get_balance E u s =
        (get_balance_except E (Inl e),
         s\<lparr>sdk_calls := sdk_calls s @ [GetAccountData (email u)]\<rparr>))
   \<and> get_balance_except E (Inr b) = Inr (Returned b)
   \<and> sdk_calls (snd (get_balance E u s)) =
       sdk_calls s @
         (if payment_processor E = IOTAPaymentController then [GetBalance (email u)]
          else (case pp_get_account_data E (email u) of
                  Inl e \<Rightarrow> [GetAccountData (email u)]
                | Inr acc \<Rightarrow> [GetAccountData (email u), GetBalance (address acc)]))"
  by (auto simp: get_balance_def get_balance_try_def get_balance_except_def
        processor_get_balance_def processor_get_account_data_def called_def
        split: sum.splits)

text \<open>
  With IOTA the balance of \<^verbatim>\<open>ana@predico.eu\<close> is asked for under her email; with
  Ethereum her address \<^verbatim>\<open>0xA1\<close> is resolved first and the balance asked for under
  it (that gateway knows no balance under the email).
\<close>

theorem get_balance_invokes_processor_witness:
  "payment_processor env_iota = IOTAPaymentController
   \<and> get_balance env_iota ana empty_state =
       (Inr (Returned (PDict [(PStr ''balance'', PInt 25)])),
        empty_state\<lparr>sdk_calls := [GetBalance ''ana@predico.eu'']\<rparr>)
   \<and> payment_processor env_ethereum = EthereumSmartContract
   \<and> pp_get_account_data env_ethereum (email ana) = Inr \<lparr>address = ''0xA1''\<rparr>
   \<and> pp_get_balance env_ethereum ''ana@predico.eu'' = Inl (WalletException ''unknown account'')
   \<and> get_balance env_ethereum ana empty_state =
       (Inr (Returned (PDict [(PStr ''balance'', PInt 25)])),
        empty_state\<lparr>sdk_calls := [GetAccountData ''ana@predico.eu'', GetBalance ''0xA1'']\<rparr>)
   \<and> pp_get_account_data env0 (email ana) = Inl (OtherException ''gateway unreachable'')
   \<and> get_balance env0 ana empty_state =
       (Inl (LiteralEvalError ''gateway unreachable''),
        empty_state\<lparr>sdk_calls := [GetAccountData ''ana@predico.eu'']\<rparr>)"
proof -
  have p1: "payment_processor env_iota = IOTAPaymentController"
    by (simp add: env_iota_def)
  have b1: "pp_get_balance env_iota (email ana) = Inr (PDict [(PStr ''balance'', PInt 25)])"
    by (simp add: env_iota_def ana_def)
  have p2: "payment_processor env_ethereum = EthereumSmartContract"
    by (simp add: env_ethereum_def env0_def)
  have a2: "pp_get_account_data env_ethereum (email ana) = Inr \<lparr>address = ''0xA1''\<rparr>"
    by (simp add: env_ethereum_def ana_def)
  have b2: "pp_get_balance env_ethereum ''0xA1'' = Inr (PDict [(PStr ''balance'', PInt 25)])"
    by (simp add: env_ethereum_def)
  have n2: "pp_get_balance env_ethereum ''ana@predico.eu'' = Inl (WalletException ''unknown account'')"
    by (simp add: env_ethereum_def)
  have p3: "payment_processor env0 = EthereumSmartContract"
    by (simp add: env0_def)
  have a3: "pp_get_account_data env0 (email ana) = Inl (OtherException ''gateway unreachable'')"
    by (simp add: env0_def)
  have x3: "get_balance_except env0 (Inl (OtherException ''gateway unreachable'')) =
              Inl (LiteralEvalError ''gateway unreachable'')"
    by (simp add: get_balance_except_def reraise_literal_def env0_def fragment_gateway)
  have e: "email ana = ''ana@predico.eu''" "sdk_calls empty_state = []"
    by (simp_all add: ana_def empty_state_def)
  show ?thesis
    using get_balance_invokes_processor[of env_iota ana empty_state]
      get_balance_invokes_processor[of env_ethereum ana empty_state "\<lparr>address = ''0xA1''\<rparr>"]
      get_balance_invokes_processor[of env0 ana empty_state _ "OtherException ''gateway unreachable''"]
      p1 b1 p2 a2 b2 n2 p3 a3 x3 e
    by simp
qed

text \<open>
  C2. Claimed: with the Ethereum processor, \<^verbatim>\<open>get_request_funds\<close> answers 400 with
  the detail that the faucet is not available, and never calls the processor. The
  processor is not called, but the \<^verbatim>\<open>HTTPException\<close> is raised inside the \<^verbatim>\<open>try\<close>,
  whose \<^verbatim>\<open>except Exception\<close> hands its string form to \<^verbatim>\<open>ast.literal_eval\<close>: the text
  \<^verbatim>\<open>400: Faucet not available for Ethereum\<close> is no literal (the example environment
  refuses it, as Python does), and the route ends in an error that is no
  \<^verbatim>\<open>HTTPException\<close>, with the state as it was.
\<close>

theorem request_funds_ethereum_raises:
  "payment_processor env0 = EthereumSmartContract
   \<and> get_request_funds env0 ana empty_state =
       (Inl (LiteralEvalError ''400: Faucet not available for Ethereum''), empty_state)
   \<and> http_status (fst (get_request_funds env0 ana empty_state)) = 500"
  by (simp add: get_request_funds_def get_request_funds_try_def reraise_literal_def env0_def
        dec_400 fragment_faucet)

text \<open>
  C10. In \<^verbatim>\<open>get_wallet_address\<close>, in \<^verbatim>\<open>get_balance\<close> (for an exception that is no
  \<^verbatim>\<open>WalletException\<close>) and in \<^verbatim>\<open>get_request_funds\<close>, an exception \<open>e\<close> of the \<^verbatim>\<open>try\<close>
  body is answered through \<^verbatim>\<open>ast.literal_eval(str(e))\<close>. Where the string form is a
  literal, the handler raises \<^verbatim>\<open>HTTPException(status_code=400, detail=error_dict)\<close>
  with the value read (the phrase \<^verbatim>\<open>Bad Request\<close> in the place of \<^verbatim>\<open>None\<close>). Where it
  is no literal the handler itself raises the error of \<^verbatim>\<open>literal_eval\<close>: no
  \<^verbatim>\<open>HTTPException\<close> is raised and the framework answers 500; so a 400 is raised only
  for a literal. With the Ethereum processor the exception of \<^verbatim>\<open>get_request_funds\<close>
  is its own \<^verbatim>\<open>HTTPException\<close>, whose string form is
  \<^verbatim>\<open>400: Faucet not available for Ethereum\<close>; where that is no literal, the route
  raises.
\<close>

theorem literal_eval_handler_partial:
  "(pp_get_account_data E (email u) = Inl e \<longrightarrow>
      fst (get_wallet_address E u s) = reraise_literal E e)
   \<and> (fst (get_balance_try E u s) = Inl e \<and> (\<forall>m. e \<noteq> WalletException m) \<longrightarrow>
      fst (get_balance E u s) = reraise_literal E e)
   \<and> (fst (get_request_funds_try E u s) = Inl e \<longrightarrow>
      fst (get_request_funds E u s) = reraise_literal E e)
   \<and> reraise_literal E e =
      (case literal_eval E (str_exc E e) of
         Some error_dict \<Rightarrow>
           Inl (HTTPException 400 (if error_dict = PNone then PStr ''Bad Request'' else error_dict))
       | None \<Rightarrow> Inl (LiteralEvalError (str_exc E e)))
   \<and> (literal_eval E (str_exc E e) = None \<longrightarrow>
      reraise_literal E e = Inl (LiteralEvalError (str_exc E e))
      \<and> (\<forall>st d. reraise_literal E e \<noteq> Inl (HTTPException st d))
      \<and> http_status (reraise_literal E e) = 500)
   \<and> ((\<exists>d. reraise_literal E e = Inl (HTTPException 400 d)) \<longrightarrow>
      literal_eval E (str_exc E e) \<noteq> None)
   \<and> (payment_processor E = EthereumSmartContract \<longrightarrow>
      get_request_funds_try E u s =
        (Inl (HTTPException 400 (PStr ''Faucet not available for Ethereum'')), s)
      \<and> str_exc E (HTTPException 400 (PStr ''Faucet not available for Ethereum'')) =
          ''400: Faucet not available for Ethereum'')
   \<and> (payment_processor E = EthereumSmartContract
        \<and> literal_eval E ''400: Faucet not available for Ethereum'' = None \<longrightarrow>
      get_request_funds E u s =
        (Inl (LiteralEvalError ''400: Faucet not available for Ethereum''), s)
      \<and> http_status (fst (get_request_funds E u s)) = 500)"
proof (intro conjI impI)
  assume "pp_get_account_data E (email u) = Inl e"
  then show "fst (get_wallet_address E u s) = reraise_literal E e"
    by (simp add: get_wallet_address_def processor_get_account_data_def)
next
  assume "fst (get_balance_try E u s) = Inl e \<and> (\<forall>m. e \<noteq> WalletException m)"
  then show "fst (get_balance E u s) = reraise_literal E e"
    by (cases "get_balance_try E u s"; cases e)
       (auto simp: get_balance_def get_balance_except_def)
next
  assume "fst (get_request_funds_try E u s) = Inl e"
  then show "fst (get_request_funds E u s) = reraise_literal E e"
    by (cases "get_request_funds_try E u s") (auto simp: get_request_funds_def)
next
  show "reraise_literal E e =
      (case literal_eval E (str_exc E e) of
         Some error_dict \<Rightarrow>
           Inl (HTTPException 400 (if error_dict = PNone then PStr ''Bad Request'' else error_dict))
       | None \<Rightarrow> Inl (LiteralEvalError (str_exc E e)))"
    by (simp add: reraise_literal_def http_exception_400 split: option.splits)
next
  assume n: "literal_eval E (str_exc E e) = None"
  then show "reraise_literal E e = Inl (LiteralEvalError (str_exc E e))"
    by (simp add: reraise_literal_def)
  from n show "\<forall>st d. reraise_literal E e \<noteq> Inl (HTTPException st d)"
    by (simp add: reraise_literal_def)
  from n show "http_status (reraise_literal E e) = 500"
    by (simp add: reraise_literal_def)
next
  assume "\<exists>d. reraise_literal E e = Inl (HTTPException 400 d)"
  then show "literal_eval E (str_exc E e) \<noteq> None"
    by (auto simp: reraise_literal_def split: option.splits)
next
  assume "payment_processor E = EthereumSmartContract"
  then show "get_request_funds_try E u s =
        (Inl (HTTPException 400 (PStr ''Faucet not available for Ethereum'')), s)"
    by (simp add: get_request_funds_try_def)
next
  show "str_exc E (HTTPException 400 (PStr ''Faucet not available for Ethereum'')) =
          ''400: Faucet not available for Ethereum''"
    by (simp add: dec_400)
next
  assume a: "payment_processor E = EthereumSmartContract
        \<and> literal_eval E ''400: Faucet not available for Ethereum'' = None"
  then show r: "get_request_funds E u s =
        (Inl (LiteralEvalError ''400: Faucet not available for Ethereum''), s)"
    by (simp add: get_request_funds_def get_request_funds_try_def reraise_literal_def dec_400)
  show "http_status (fst (get_request_funds E u s)) = 500"
    by (simp add: r)
qed

text \<open>
  With a gateway out of reach, whose error text is no literal, the three routes
  raise; with a gateway whose error text is the literal \<^verbatim>\<open>{404: None}\<close> they raise
  the 400 with that dictionary.
\<close>

theorem literal_eval_handler_partial_witness:
  "pp_get_account_data env0 (email ana) = Inl (OtherException ''gateway unreachable'')
   \<and> fst (get_balance_try env0 ana empty_state) = Inl (OtherException ''gateway unreachable'')
   \<and> literal_eval env0 (str_exc env0 (OtherException ''gateway unreachable'')) = None
   \<and> fst (get_wallet_address env0 ana empty_state) = Inl (LiteralEvalError ''gateway unreachable'')
   \<and> fst (get_balance env0 ana empty_state) = Inl (LiteralEvalError ''gateway unreachable'')
   \<and> http_status (fst (get_wallet_address env0 ana empty_state)) = 500
   \<and> payment_processor env0 = EthereumSmartContract
   \<and> literal_eval env0 ''400: Faucet not available for Ethereum'' = None
   \<and> get_request_funds env0 ana empty_state =
       (Inl (LiteralEvalError ''400: Faucet not available for Ethereum''), empty_state)
   \<and> fst (get_request_funds_try env_literal ana empty_state) = Inl (OtherException ''{404: None}'')
   \<and> fst (get_wallet_address env_literal ana empty_state) =
       Inl (HTTPException 400 (PDict [(PInt 404, PNone)]))
   \<and> fst (get_balance env_literal ana empty_state) =
       Inl (HTTPException 400 (PDict [(PInt 404, PNone)]))
   \<and> fst (get_request_funds env_literal ana empty_state) =
       Inl (HTTPException 400 (PDict [(PInt 404, PNone)]))
   \<and> literal_eval env_literal (str_exc env_literal (OtherException ''{404: None}'')) \<noteq> None"
proof -
  have a0: "pp_get_account_data env0 (email ana) = Inl (OtherException ''gateway unreachable'')"
    by (simp add: env0_def)
  have b0: "fst (get_balance_try env0 ana empty_state) = Inl (OtherException ''gateway unreachable'')"
    by (simp add: get_balance_try_def processor_get_account_data_def env0_def)
  have l0: "literal_eval env0 (str_exc env0 (OtherException ''gateway unreachable'')) = None"
    by (simp add: env0_def fragment_gateway)
  have p0: "payment_processor env0 = EthereumSmartContract"
    by (simp add: env0_def)
  have f0: "literal_eval env0 ''400: Faucet not available for Ethereum'' = None"
    by (simp add: env0_def fragment_faucet)
  have a1: "pp_get_account_data env_literal (email ana) = Inl (OtherException ''{404: None}'')"
    by (simp add: env_literal_def)
  have b1: "fst (get_balance_try env_literal ana empty_state) = Inl (OtherException ''{404: None}'')"
    by (simp add: get_balance_try_def processor_get_balance_def env_literal_def)
  have r1: "fst (get_request_funds_try env_literal ana empty_state) = Inl (OtherException ''{404: None}'')"
    by (simp add: get_request_funds_try_def processor_get_account_data_def env_literal_def)
  have l1: "literal_eval env_literal (str_exc env_literal (OtherException ''{404: None}'')) =
              Some (PDict [(PInt 404, PNone)])"
    by (simp add: env_literal_def env0_def fragment_dict)
  show ?thesis
    using literal_eval_handler_partial[of env0 ana "OtherException ''gateway unreachable''" empty_state]
      literal_eval_handler_partial[of env_literal ana "OtherException ''{404: None}''" empty_state]
      a0 b0 l0 p0 f0 a1 b1 r1 l1
    by simp
qed

end
